theory Spec2Isabelle
  imports Main
begin

section \<open>Data model\<close>

text \<open>
  The installer of the repository is two Node.js scripts, \<^verbatim>\<open>npm/postinstall.js\<close> (the
  fetch, verify and install pipeline) and \<^verbatim>\<open>npm/index.js\<close> (the command line front end).
  Both act on the file system, the network and the shell. The embedding threads an
  explicit \<open>world\<close> through every operation and reads the ambient process state
  (platform, architecture, environment variables, the package manifest) from an
  immutable \<open>env\<close>.

  Paths, URLs and file contents are strings. A directory tree such as an application
  bundle is one entry of the file map; its content stands for the whole tree.
\<close>

type_synonym path = string
type_synonym bytes = string

text \<open>The shell commands the scripts pass to \<^verbatim>\<open>execSync\<close>.\<close>

datatype cmd =
    HdiutilAttach path path
  | HdiutilDetach path
  | RmRf path
  | CpR path path
  | Cp path path
  | MkdirP path
  | ChmodX path
  | ServiceInstall path
  | NetSession
  | OpenApp

text \<open>
  Every \<^verbatim>\<open>Error\<close> the scripts throw or receive:
  \<^verbatim>\<open>Unsupported platform: ...\<close>, \<^verbatim>\<open>Failed to download: HTTP n\<close>, a transport error of
  \<^verbatim>\<open>https.get\<close>, \<^verbatim>\<open>Hash mismatch: expected e, got a\<close>, a failed shell command,
  \<^verbatim>\<open>No .app file found in DMG\<close>, a missing file, an unreadable \<^verbatim>\<open>package.json\<close>.
\<close>

datatype error =
    UnsupportedPlatform string
  | DownloadFailed nat
  | NetworkError string
  | HashMismatch string string
  | CommandFailed cmd
  | NoAppFound
  | ENOENT path
  | ConfigUnreadable

text \<open>
  What one \<^verbatim>\<open>https.get\<close> request meets: a response with its status code, its
  \<^verbatim>\<open>Location\<close> header and its body, or an \<^verbatim>\<open>error\<close> event of the request.
\<close>

datatype response = HttpResponse nat string bytes | TransportError string

text \<open>Console output: \<^verbatim>\<open>console.log\<close>, \<^verbatim>\<open>console.error\<close>, and
  \<^verbatim>\<open>console.error(prefix, err.message)\<close>. Emoji and blank lines are left out.\<close>

datatype line = Log string | LogErr string | LogFailure string error

record descriptor =
  url :: string
  hash :: string

record packageConfig =
  installer :: "(string \<times> descriptor) list"
  service :: "(string \<times> descriptor) list"

record platformInfo =
  platform :: string
  arch :: string
  key :: string
  isMac :: bool
  isWindows :: bool
  isLinux :: bool

text \<open>What a spawned child process does: fails to start, exits, or dies of a signal.\<close>

datatype spawn_result = SpawnError string string | Exited nat | Signalled string

text \<open>
  The ambient process state and the behaviour of the outside world the scripts rely on:
  \<^item> \<open>writable\<close>: the answer of \<^verbatim>\<open>fs.accessSync(p, W_OK)\<close>;
  \<^item> \<open>cmd_fails\<close>: the shell commands that exit non-zero for a reason outside the model
    (permissions, a busy volume);
  \<^item> \<open>sha256hex\<close>: \<^verbatim>\<open>crypto.createHash('sha256')\<close> followed by \<^verbatim>\<open>digest('hex')\<close>;
  \<^item> \<open>image_entries\<close>: the top-level entries of the volume inside a disk image, when
    \<^verbatim>\<open>hdiutil\<close> can attach it;
  \<^item> \<open>package_json\<close>: the parsed \<^verbatim>\<open>package.json\<close>, when it can be read;
  \<^item> \<open>service_run\<close>: what the installed service binary does with given arguments.
\<close>

record env =
  process_platform :: string
  process_arch :: string
  tmpdir :: path
  env_ProgramFiles :: "string option"
  env_LOCALAPPDATA :: "string option"
  writable :: "path \<Rightarrow> bool"
  cmd_fails :: "cmd \<Rightarrow> bool"
  sha256hex :: "bytes \<Rightarrow> string"
  image_entries :: "bytes \<Rightarrow> (string \<times> bytes) list option"
  package_json :: "packageConfig option"
  service_run :: "string list \<Rightarrow> spawn_result"

text \<open>
  The mutable world:
  \<^item> \<open>files\<close>: the file system, path to content;
  \<^item> \<open>volumes\<close>: the mounted volumes, mount point to top-level entry names;
  \<^item> \<open>net\<close>: the responses the network gives to the requests still to come, in order
    (each is asked with the URL of its request); when none is left, a request never
    completes;
  \<^item> \<open>requests\<close>, \<open>execs\<close>, \<open>fs_writes\<close>: the URLs requested, the shell commands
    run and the paths created or unlinked through the \<^verbatim>\<open>fs\<close> API so far;
  \<^item> \<open>out\<close>: the console.
\<close>

record world =
  files :: "path \<rightharpoonup> bytes"
  volumes :: "path \<rightharpoonup> string list"
  net :: "(string \<Rightarrow> response) list"
  requests :: "string list"
  execs :: "cmd list"
  fs_writes :: "path list"
  out :: "line list"

text \<open>
  A computation returns a value or throws, in a new world; \<open>None\<close> is a computation
  that never completes (a request without a response).
\<close>

type_synonym 'a io = "world \<Rightarrow> ((error + 'a) \<times> world) option"

definition ok :: "'a \<Rightarrow> 'a io" where
  "ok x w = Some (Inr x, w)"

definition throw :: "error \<Rightarrow> 'a io" where
  "throw e w = Some (Inl e, w)"

definition andThen :: "'a io \<Rightarrow> ('a \<Rightarrow> 'b io) \<Rightarrow> 'b io" where
  "andThen m f w =
     (case m w of
        None \<Rightarrow> None
      | Some (Inl e, w') \<Rightarrow> Some (Inl e, w')
      | Some (Inr x, w') \<Rightarrow> f x w')"

definition seq :: "'a io \<Rightarrow> 'b io \<Rightarrow> 'b io" where
  "seq m k = andThen m (\<lambda>_. k)"

definition tryCatch :: "'a io \<Rightarrow> (error \<Rightarrow> 'a io) \<Rightarrow> 'a io" where
  "tryCatch m h w =
     (case m w of
        None \<Rightarrow> None
      | Some (Inl e, w') \<Rightarrow> h e w'
      | Some (Inr x, w') \<Rightarrow> Some (Inr x, w'))"

definition liftE :: "error + 'a \<Rightarrow> 'a io" where
  "liftE r w = Some (r, w)"

definition console_log :: "string \<Rightarrow> unit io" where
  "console_log s w = Some (Inr (), w\<lparr>out := out w @ [Log s]\<rparr>)"

definition console_error :: "string \<Rightarrow> unit io" where
  "console_error s w = Some (Inr (), w\<lparr>out := out w @ [LogErr s]\<rparr>)"

definition console_error_with :: "string \<Rightarrow> error \<Rightarrow> unit io" where
  "console_error_with s e w = Some (Inr (), w\<lparr>out := out w @ [LogFailure s e]\<rparr>)"

section \<open>Paths\<close>

text \<open>
  \<^verbatim>\<open>path.join\<close> on two segments: an empty segment is skipped, the platform's separator
  joins the others. The segments joined here hold no \<^verbatim>\<open>.\<close> or \<^verbatim>\<open>..\<close> and no trailing
  separator (\<^verbatim>\<open>os.tmpdir()\<close> strips it), so nothing else is normalised.
\<close>

definition sep :: "env \<Rightarrow> string" where
  "sep env = (if process_platform env = ''win32'' then [CHR 0x5C] else ''/'')"

definition path_join :: "env \<Rightarrow> path \<Rightarrow> path \<Rightarrow> path" where
  "path_join env a b = (if a = [] then b else if b = [] then a else a @ sep env @ b)"

text \<open>\<^verbatim>\<open>path.dirname\<close>: the path up to its last separator.\<close>

definition dirname :: "env \<Rightarrow> path \<Rightarrow> path" where
  "dirname env p =
     (let s = hd (sep env) in
      if s \<notin> set p then ''.''
      else let d = rev (tl (dropWhile (\<lambda>c. c \<noteq> s) (rev p)))
           in if d = [] then [s] else d)"

text \<open>\<^verbatim>\<open>String.prototype.endsWith\<close>.\<close>

definition endsWith :: "string \<Rightarrow> string \<Rightarrow> bool" where
  "endsWith f s = (take (length s) (rev f) = rev s)"

text \<open>\<^verbatim>\<open>process.env.ProgramFiles || 'C:\\Program Files'\<close>: an unset or empty variable
  gives the default.\<close>

definition programFiles :: "env \<Rightarrow> path" where
  "programFiles env =
     (case env_ProgramFiles env of
        None \<Rightarrow> ''C:'' @ [CHR 0x5C] @ ''Program Files''
      | Some v \<Rightarrow> if v = [] then ''C:'' @ [CHR 0x5C] @ ''Program Files'' else v)"

definition localAppData :: "env \<Rightarrow> path" where
  "localAppData env = (case env_LOCALAPPDATA env of None \<Rightarrow> [] | Some v \<Rightarrow> v)"

section \<open>File system, shell and network primitives\<close>

definition existsSync :: "world \<Rightarrow> path \<Rightarrow> bool" where
  "existsSync w p = (files w p \<noteq> None)"

text \<open>\<^verbatim>\<open>fs.unlinkSync\<close> throws when the file is not there.\<close>

definition unlinkSync :: "path \<Rightarrow> unit io" where
  "unlinkSync p w =
     (if files w p = None then Some (Inl (ENOENT p), w)
      else Some (Inr (), w\<lparr>files := (files w)(p := None), fs_writes := fs_writes w @ [p]\<rparr>))"

text \<open>\<^verbatim>\<open>fs.createWriteStream\<close> creates the file, or truncates the one that is there.\<close>

definition createWriteStream :: "path \<Rightarrow> world \<Rightarrow> world" where
  "createWriteStream p w = w\<lparr>files := (files w)(p \<mapsto> []), fs_writes := fs_writes w @ [p]\<rparr>"

text \<open>\<^verbatim>\<open>if (fs.existsSync(p)) fs.unlinkSync(p)\<close>.\<close>

definition unlink_if_exists :: "path \<Rightarrow> world \<Rightarrow> world" where
  "unlink_if_exists p w =
     (if existsSync w p
      then w\<lparr>files := (files w)(p := None), fs_writes := fs_writes w @ [p]\<rparr>
      else w)"

text \<open>\<^verbatim>\<open>fs.readdirSync\<close>, which the scripts call on the mount point only: the entry names
  of the volume mounted there.\<close>

definition readdirSync :: "path \<Rightarrow> (string list) io" where
  "readdirSync d w =
     (case volumes w d of
        None \<Rightarrow> Some (Inl (ENOENT d), w)
      | Some names \<Rightarrow> Some (Inr names, w))"

text \<open>
  The effect of a shell command that the environment lets through; \<open>None\<close> is a non-zero
  exit. \<^verbatim>\<open>hdiutil attach\<close> needs a readable image and a free mount point and shows the
  image's entries under the mount point; \<^verbatim>\<open>hdiutil detach\<close> needs a mounted volume;
  \<^verbatim>\<open>cp\<close> needs its source; \<^verbatim>\<open>rm -rf\<close> and \<^verbatim>\<open>mkdir -p\<close> accept what is there.
\<close>

fun run_cmd :: "env \<Rightarrow> cmd \<Rightarrow> world \<Rightarrow> world option" where
  "run_cmd env (HdiutilAttach dmg mp) w =
     (case files w dmg of
        None \<Rightarrow> None
      | Some bs \<Rightarrow>
          (case image_entries env bs of
             None \<Rightarrow> None
           | Some es \<Rightarrow>
               if volumes w mp \<noteq> None then None
               else Some (w\<lparr>files := files w ++ map_of (map (\<lambda>(n, c). (path_join env mp n, c)) es),
                            volumes := (volumes w)(mp \<mapsto> map fst es)\<rparr>)))"
| "run_cmd env (HdiutilDetach mp) w =
     (case volumes w mp of
        None \<Rightarrow> None
      | Some names \<Rightarrow>
          Some (w\<lparr>files := (\<lambda>p. if p \<in> set (map (path_join env mp) names) then None else files w p),
                   volumes := (volumes w)(mp := None)\<rparr>))"
| "run_cmd env (RmRf p) w = Some (w\<lparr>files := (files w)(p := None)\<rparr>)"
| "run_cmd env (CpR src dst) w =
     (case files w src of
        None \<Rightarrow> None
      | Some c \<Rightarrow> Some (w\<lparr>files := (files w)(dst \<mapsto> c)\<rparr>))"
| "run_cmd env (Cp src dst) w =
     (case files w src of
        None \<Rightarrow> None
      | Some c \<Rightarrow> Some (w\<lparr>files := (files w)(dst \<mapsto> c)\<rparr>))"
| "run_cmd env (MkdirP d) w =
     Some (if files w d = None then w\<lparr>files := (files w)(d \<mapsto> [])\<rparr> else w)"
| "run_cmd env (ChmodX p) w = (if files w p = None then None else Some w)"
| "run_cmd env (ServiceInstall p) w = (if files w p = None then None else Some w)"
| "run_cmd env NetSession w = Some w"
| "run_cmd env OpenApp w = Some w"

text \<open>\<^verbatim>\<open>execSync\<close>: the command is recorded, and a non-zero exit throws.\<close>

definition execSync :: "env \<Rightarrow> cmd \<Rightarrow> unit io" where
  "execSync env c w =
     (let w1 = w\<lparr>execs := execs w @ [c]\<rparr> in
      if cmd_fails env c then Some (Inl (CommandFailed c), w1)
      else case run_cmd env c w1 of
             None \<Rightarrow> Some (Inl (CommandFailed c), w1)
           | Some w2 \<Rightarrow> Some (Inr (), w2))"

section \<open>postinstall.js\<close>

subsection \<open>getPlatformInfo\<close>

text \<open>
  \<^verbatim>\<open>archMap[arch] || arch\<close> is a lookup among the table's own keys (the values of
  \<^verbatim>\<open>process.arch\<close> are Node's architecture names, none of which is a property that a
  plain object inherits).
\<close>

definition archMap_windows :: "(string \<times> string) list" where
  "archMap_windows = [(''x64'', ''amd64''), (''arm64'', ''arm64''), (''ia32'', ''386'')]"

definition archMap_linux :: "(string \<times> string) list" where
  "archMap_linux = [(''x64'', ''amd64''), (''arm64'', ''arm64''), (''arm'', ''arm'')]"

definition lookup_or :: "(string \<times> string) list \<Rightarrow> string \<Rightarrow> string" where
  "lookup_or archMap a = (case map_of archMap a of None \<Rightarrow> a | Some v \<Rightarrow> if v = [] then a else v)"

definition identify :: "string \<Rightarrow> string \<Rightarrow> error + platformInfo" where
  "identify rawOS rawArch =
     (if rawOS = ''darwin'' then
        Inr \<lparr>platform = ''darwin'', arch = ''universal'', key = ''darwin-universal'',
             isMac = True, isWindows = False, isLinux = False\<rparr>
      else if rawOS = ''win32'' then
        Inr \<lparr>platform = ''windows'', arch = lookup_or archMap_windows rawArch,
             key = ''windows-'' @ lookup_or archMap_windows rawArch,
             isMac = False, isWindows = True, isLinux = False\<rparr>
      else if rawOS = ''linux'' then
        Inr \<lparr>platform = ''linux'', arch = lookup_or archMap_linux rawArch,
             key = ''linux-'' @ lookup_or archMap_linux rawArch,
             isMac = False, isWindows = False, isLinux = True\<rparr>
      else Inl (UnsupportedPlatform rawOS))"

definition getPlatformInfo :: "env \<Rightarrow> error + platformInfo" where
  "getPlatformInfo env = identify (process_platform env) (process_arch env)"

subsection \<open>getPackageConfig, checkPrivileges\<close>

definition getPackageConfig :: "env \<Rightarrow> error + packageConfig" where
  "getPackageConfig env =
     (case package_json env of None \<Rightarrow> Inl ConfigUnreadable | Some c \<Rightarrow> Inr c)"

text \<open>The probe never throws: a failed access check or a failed \<^verbatim>\<open>net session\<close> is
  \<open>False\<close>, and so is any other platform.\<close>

definition checkPrivileges :: "env \<Rightarrow> bool io" where
  "checkPrivileges env =
     (if process_platform env = ''darwin'' \<or> process_platform env = ''linux'' then
        (let testPath = (if process_platform env = ''darwin'' then ''/Applications''
                         else ''/usr/local/bin'')
         in ok (writable env testPath))
      else if process_platform env = ''win32'' then
        tryCatch (seq (execSync env NetSession) (ok True)) (\<lambda>err. ok False)
      else ok False)"

subsection \<open>downloadFile\<close>

text \<open>
  The write stream is opened first, then the request is made. A 301 or 302 closes the
  stream, removes the file and starts again at the \<^verbatim>\<open>Location\<close>; any other status but
  200 removes the file and rejects; a transport error removes the file and rejects; a
  200 pipes the body into the file.
\<close>

function downloadFile :: "string \<Rightarrow> path \<Rightarrow> unit io" where
  "downloadFile u destPath w =
     (let w1 = createWriteStream destPath (w\<lparr>out := out w @ [Log (''Downloading from: '' @ u)]\<rparr>)
      in case net w1 of
           [] \<Rightarrow> None
         | r # rest \<Rightarrow>
             (let w2 = w1\<lparr>net := rest, requests := requests w1 @ [u]\<rparr> in
              case r u of
                TransportError m \<Rightarrow> Some (Inl (NetworkError m), unlink_if_exists destPath w2)
              | HttpResponse statusCode location body \<Rightarrow>
                  if statusCode = 302 \<or> statusCode = 301 then
                    downloadFile location destPath (unlink_if_exists destPath w2)
                  else if statusCode \<noteq> 200 then
                    Some (Inl (DownloadFailed statusCode), unlink_if_exists destPath w2)
                  else
                    Some (Inr (), w2\<lparr>files := (files w2)(destPath \<mapsto> body),
                                     out := out w2 @ [Log ''Download complete'']\<rparr>)))"
  by pat_completeness auto
termination
  by (relation "measure (\<lambda>(u, d, w). length (net w))")
     (auto simp: createWriteStream_def unlink_if_exists_def)

subsection \<open>verifyHash\<close>

text \<open>The digest of the file, prefixed with \<^verbatim>\<open>sha256:\<close>, is compared with the expected
  string by \<^verbatim>\<open>===\<close>. A file that cannot be read rejects with the stream's error.\<close>

definition verifyHash :: "env \<Rightarrow> path \<Rightarrow> string \<Rightarrow> bool io" where
  "verifyHash env filePath expectedHash w =
     (case files w filePath of
        None \<Rightarrow> Some (Inl (ENOENT filePath), w)
      | Some data \<Rightarrow>
          (let fileHash = ''sha256:'' @ sha256hex env data in
           if fileHash = expectedHash then Some (Inr True, w)
           else Some (Inl (HashMismatch expectedHash fileHash), w)))"

subsection \<open>installDMG\<close>

text \<open>
  The body of the \<^verbatim>\<open>try\<close>: attach the image at the fixed mount point, look for
  \<^verbatim>\<open>Kaitu.app\<close> (and, when it is missing, for any entry ending in \<^verbatim>\<open>.app\<close>, whose name
  is then not used: \<open>appPath\<close> stays what it was), remove an existing installation,
  copy, detach, delete the image.
\<close>

definition installDMG_try :: "env \<Rightarrow> path \<Rightarrow> unit io" where
  "installDMG_try env dmgPath =
     (let mountPoint = path_join env (tmpdir env) ''kaitu-mount'' in
      seq (console_log ''Mounting DMG...'')
     (seq (execSync env (HdiutilAttach dmgPath mountPoint))
     (let appPath = path_join env mountPoint ''Kaitu.app'' in
      seq (\<lambda>w. if \<not> existsSync w appPath
                then andThen (readdirSync mountPoint)
                       (\<lambda>entries. case find (\<lambda>f. endsWith f ''.app'') entries of
                                     None \<Rightarrow> throw NoAppFound
                                   | Some appFile \<Rightarrow> ok ()) w
                else ok () w)
     (let destPath = ''/Applications/Kaitu.app'' in
      seq (console_log ''Copying app to /Applications...'')
     (seq (\<lambda>w. if existsSync w destPath
                then seq (console_log ''Removing existing installation...'')
                         (execSync env (RmRf destPath)) w
                else ok () w)
     (seq (execSync env (CpR appPath destPath))
     (seq (console_log ''Unmounting DMG...'')
     (seq (execSync env (HdiutilDetach mountPoint))
     (seq (unlinkSync dmgPath)
     (seq (console_log ''Kaitu app installed successfully to /Applications'')
          (console_log ''You can now launch Kaitu from your Applications folder or Launchpad'')
      ))))))))))"

text \<open>The \<^verbatim>\<open>catch\<close>: report, try to detach (ignoring a failure), rethrow.\<close>

definition installDMG :: "env \<Rightarrow> path \<Rightarrow> unit io" where
  "installDMG env dmgPath =
     seq (console_log ''Installing Kaitu app from DMG...'')
       (tryCatch (installDMG_try env dmgPath)
          (\<lambda>err. seq (console_error_with ''Installation failed:'' err)
                 (seq (tryCatch (execSync env (HdiutilDetach (path_join env (tmpdir env) ''kaitu-mount'')))
                        (\<lambda>e. ok ()))
                      (throw err))))"

subsection \<open>installService\<close>

definition service_targetPath :: "env \<Rightarrow> platformInfo \<Rightarrow> path" where
  "service_targetPath env platformInfo =
     (if isWindows platformInfo
      then path_join env (path_join env (programFiles env) ''kaitu'') ''kaitu-service.exe''
      else ''/usr/local/bin/kaitu-service'')"

definition service_tempPath :: "env \<Rightarrow> platformInfo \<Rightarrow> path" where
  "service_tempPath env platformInfo =
     path_join env (tmpdir env)
       (''kaitu-service-'' @ key platformInfo @ (if isWindows platformInfo then ''.exe'' else []))"

text \<open>The body of the \<^verbatim>\<open>try\<close>. When no platform flag is set the function falls off its
  end and returns \<^verbatim>\<open>undefined\<close>, which its caller reads as false.\<close>

definition installService_try :: "env \<Rightarrow> platformInfo \<Rightarrow> descriptor \<Rightarrow> bool io" where
  "installService_try env platformInfo serviceInfo =
     (let tempPath = service_tempPath env platformInfo;
          targetPath = service_targetPath env platformInfo in
      seq (console_log ''Downloading service binary...'')
     (seq (downloadFile (url serviceInfo) tempPath)
     (seq (console_log ''Verifying service binary...'')
     (seq (verifyHash env tempPath (hash serviceInfo))
     (seq (console_log ''Verification successful'')
     (if isMac platformInfo \<or> isLinux platformInfo then
        seq (console_log (''Installing service to '' @ targetPath @ ''...''))
       (let binDir = dirname env targetPath in
        seq (\<lambda>w. if \<not> existsSync w binDir then execSync env (MkdirP binDir) w else ok () w)
       (seq (execSync env (Cp tempPath targetPath))
       (seq (execSync env (ChmodX targetPath))
       (seq (unlinkSync tempPath)
       (seq (console_log ''Running service installation...'')
       (seq (tryCatch
               (seq (execSync env (ServiceInstall targetPath))
                    (console_log ''Service installed successfully''))
               (\<lambda>err. seq (console_log ''Service installation requires sudo privileges'')
                           (console_log ''Please run manually: sudo kaitu-service install'')))
            (ok True)))))))
      else if isWindows platformInfo then
        seq (console_log ''Windows service installation is not yet automated'')
       (seq (console_log ''Please install the service manually'')
            (ok False))
      else ok False))))))"

definition installService :: "env \<Rightarrow> platformInfo \<Rightarrow> packageConfig \<Rightarrow> bool io" where
  "installService env platformInfo packageConfig =
     seq (console_log ''Installing Kaitu Service...'')
       (case map_of (service packageConfig) (key platformInfo) of
          None \<Rightarrow>
            seq (console_log (''No service binary available for platform: '' @ key platformInfo))
                (ok False)
        | Some serviceInfo \<Rightarrow>
            tryCatch (installService_try env platformInfo serviceInfo)
              (\<lambda>err. seq (console_error_with ''Service installation failed:'' err) (ok False)))"

subsection \<open>postInstall\<close>

definition dmgTempPath :: "env \<Rightarrow> path" where
  "dmgTempPath env = path_join env (tmpdir env) ''kaitu-installer.dmg''"

text \<open>\<^verbatim>\<open>Array.prototype.join\<close>.\<close>

fun join_with :: "string \<Rightarrow> string list \<Rightarrow> string" where
  "join_with s [] = []"
| "join_with s [x] = x"
| "join_with s (x # y # ys) = x @ s @ join_with s (y # ys)"

text \<open>
  The macOS branch of \<^verbatim>\<open>postInstall\<close>, second half: the image at the temp path is
  verified, and installed only with privileges.
\<close>

definition verifyAndInstall :: "env \<Rightarrow> bool \<Rightarrow> descriptor \<Rightarrow> unit io" where
  "verifyAndInstall env hasPrivileges installerInfo =
     (let dmgPath = dmgTempPath env in
      seq (console_log ''Verifying installer...'')
     (seq (verifyHash env dmgPath (hash installerInfo))
     (seq (console_log ''Verification successful'')
          (if hasPrivileges then installDMG env dmgPath
           else seq (console_log ''Cannot install to /Applications without privileges'')
               (seq (console_log (''Downloaded installer to: '' @ dmgPath))
                    (console_log ''Please open the DMG and drag Kaitu to Applications manually''))))))"

text \<open>
  The macOS branch of \<^verbatim>\<open>postInstall\<close>: a cached image is verified and, when that fails,
  deleted and downloaded again; without a cached image the download runs at once. Then
  comes the second half.
\<close>

definition postInstall_mac :: "env \<Rightarrow> bool \<Rightarrow> descriptor \<Rightarrow> unit io" where
  "postInstall_mac env hasPrivileges installerInfo =
     seq (console_log ''Installing Kaitu Desktop App...'')
     (let dmgPath = dmgTempPath env in
      seq (\<lambda>w. if existsSync w dmgPath
                then seq (console_log ''Using cached installer...'')
                       (tryCatch (seq (verifyHash env dmgPath (hash installerInfo)) (ok ()))
                          (\<lambda>err. seq (console_log ''Cached installer verification failed, re-downloading...'')
                                 (seq (unlinkSync dmgPath)
                                      (downloadFile (url installerInfo) dmgPath)))) w
                else downloadFile (url installerInfo) dmgPath w)
          (verifyAndInstall env hasPrivileges installerInfo))"

definition manual_download_hint :: "unit io" where
  "manual_download_hint =
     seq (console_log ''Please download and install manually from:'')
         (console_log ''https://github.com/allnationconnect/kaitu/releases'')"

text \<open>\<^verbatim>\<open>postInstall\<close> once the platform and the privileges are known: the privilege warning,
  the manifest, the service (with privileges only), the desktop installer of the
  platform, the summary.\<close>

definition postInstall_steps :: "env \<Rightarrow> platformInfo \<Rightarrow> bool \<Rightarrow> unit io" where
  "postInstall_steps env platformInfo hasPrivileges =
      seq (if \<not> hasPrivileges
           then seq (console_log ''Full installation requires administrator privileges'')
               (seq (console_log ''Please run with sudo: sudo npm install -g kaitu'')
                    (console_log ''Continuing with limited installation...''))
           else ok ())
     (andThen (liftE (getPackageConfig env)) (\<lambda>packageConfig.
      andThen (if hasPrivileges then installService env platformInfo packageConfig else ok False)
        (\<lambda>serviceInstalled.
      case map_of (installer packageConfig) (key platformInfo) of
        None \<Rightarrow>
          seq (console_log ''No desktop installer available for your platform yet.'')
         (seq (console_log (''Available platforms: '' @ join_with '', '' (map fst (installer packageConfig))))
              (if \<not> serviceInstalled
               then seq (console_log ''Please download the desktop app manually from:'')
                        (console_log ''https://github.com/allnationconnect/kaitu/releases'')
               else ok ()))
      | Some installerInfo \<Rightarrow>
          seq (if isMac platformInfo then postInstall_mac env hasPrivileges installerInfo
               else if isWindows platformInfo then
                 seq (console_log ''Windows automated installation is not yet implemented.'')
                (seq manual_download_hint
                     (console_log ''The installer will be available once Windows packages are ready.''))
               else if isLinux platformInfo then
                 seq (console_log ''Linux automated installation is not yet implemented.'')
                (seq manual_download_hint
                     (console_log ''The installer will be available once Linux packages are ready.''))
               else ok ())
         (seq (console_log ''Installation Summary:'')
         (seq (if serviceInstalled
               then console_log ''Service installed to /usr/local/bin/kaitu-service''
               else ok ())
              (if isMac platformInfo \<and> hasPrivileges
               then console_log ''Desktop app installed to /Applications''
               else ok ()))))))"

text \<open>The body of the \<^verbatim>\<open>try\<close> of \<^verbatim>\<open>postInstall\<close>.\<close>

definition postInstall_try :: "env \<Rightarrow> unit io" where
  "postInstall_try env =
     seq (console_log ''Installing Kaitu'')
     (andThen (liftE (getPlatformInfo env)) (\<lambda>platformInfo.
      seq (console_log (''Platform: '' @ key platformInfo))
     (andThen (checkPrivileges env) (postInstall_steps env platformInfo))))"

text \<open>How a process ends.\<close>

datatype outcome = Returned | Exit nat | Killed string

text \<open>The \<^verbatim>\<open>catch\<close> of \<^verbatim>\<open>postInstall\<close> reports and calls \<^verbatim>\<open>process.exit(1)\<close>.\<close>

definition postInstall :: "env \<Rightarrow> world \<Rightarrow> (outcome \<times> world) option" where
  "postInstall env w =
     (case postInstall_try env w of
        None \<Rightarrow> None
      | Some (Inr u, w') \<Rightarrow> Some (Returned, w')
      | Some (Inl err, w') \<Rightarrow>
          Some (Exit 1, w'\<lparr>out := out w' @
                  [LogFailure ''Installation failed:'' err,
                   LogErr ''You can download the installer manually from:'',
                   LogErr ''https://github.com/allnationconnect/kaitu/releases'']\<rparr>))"

section \<open>index.js\<close>

definition servicePath :: "env \<Rightarrow> path" where
  "servicePath env =
     (if process_platform env = ''win32''
      then path_join env (path_join env (programFiles env) ''kaitu'') ''kaitu-service.exe''
      else ''/usr/local/bin/kaitu-service'')"

definition isServiceInstalled :: "env \<Rightarrow> world \<Rightarrow> bool" where
  "isServiceInstalled env w = existsSync w (servicePath env)"

definition isAppInstalled :: "env \<Rightarrow> world \<Rightarrow> bool" where
  "isAppInstalled env w =
     (if process_platform env = ''darwin'' then existsSync w ''/Applications/Kaitu.app''
      else if process_platform env = ''win32'' then
        list_ex (existsSync w)
          [path_join env (programFiles env) ''Kaitu'',
           path_join env (path_join env (localAppData env) ''Programs'') ''Kaitu'']
      else False)"

definition launchApp :: "env \<Rightarrow> unit io" where
  "launchApp env =
     (if process_platform env = ''darwin'' then
        tryCatch (seq (execSync env OpenApp) (console_log ''Kaitu app launched''))
          (\<lambda>err. seq (console_error_with ''Failed to launch Kaitu app:'' err)
                      (console_log ''Please launch manually from /Applications''))
      else if process_platform env = ''win32'' then
        console_log ''Please launch Kaitu from your Start Menu or Desktop''
      else console_log ''Please launch Kaitu from your application menu'')"

definition showHelp :: "unit io" where
  "showHelp = console_log ''Kaitu CLI - Desktop Application and Service Manager''"

definition install_hint :: "unit io" where
  "install_hint = console_log ''Please run: sudo npm install -g kaitu''"

definition showStatus :: "env \<Rightarrow> unit io" where
  "showStatus env =
     seq (console_log ''Kaitu Installation Status:'')
    (seq (\<lambda>w. console_log (''Desktop App: '' @ (if isAppInstalled env w then ''Installed'' else ''Not installed'')) w)
    (seq (\<lambda>w. console_log (''Service Binary: '' @ (if isServiceInstalled env w then ''Installed'' else ''Not installed'')) w)
         (\<lambda>w. if \<not> isAppInstalled env w \<or> \<not> isServiceInstalled env w
               then seq (console_log ''To install missing components:'')
                        (console_log ''  sudo npm install -g kaitu'') w
               else ok () w)))"

text \<open>A command ends the process (\<^verbatim>\<open>process.exit\<close>, a signal) or returns to the event
  loop, which then ends it with code 0.\<close>

definition exit_with :: "nat \<Rightarrow> world \<Rightarrow> (outcome \<times> world) option" where
  "exit_with n w = Some (Exit n, w)"

definition finish :: "unit io \<Rightarrow> world \<Rightarrow> (outcome \<times> world) option" where
  "finish m w =
     (case m w of
        None \<Rightarrow> None
      | Some (r, w') \<Rightarrow> Some (Returned, w'))"

definition runServiceCommand :: "env \<Rightarrow> string list \<Rightarrow> world \<Rightarrow> (outcome \<times> world) option" where
  "runServiceCommand env args w =
     (if \<not> existsSync w (servicePath env) then
        exit_with 1 (w\<lparr>out := out w @ [LogErr ''Service not installed'',
                                        Log ''Please run: sudo npm install -g kaitu'']\<rparr>)
      else case service_run env args of
             SpawnError code msg \<Rightarrow>
               exit_with 1 (w\<lparr>out := out w @
                  (LogErr (''Failed to run service command: '' @ msg) #
                   (if code = ''EACCES''
                    then [Log (''Try running with sudo: sudo kaitu service '' @ join_with '' '' args)]
                    else []))\<rparr>)
           | Signalled sig \<Rightarrow> Some (Killed sig, w)
           | Exited code \<Rightarrow> exit_with code w)"

text \<open>\<^verbatim>\<open>runInstall\<close> runs \<^verbatim>\<open>postinstall.js\<close> as a child and exits with its code.\<close>

definition runInstall :: "env \<Rightarrow> world \<Rightarrow> (outcome \<times> world) option" where
  "runInstall env w =
     (case postInstall env (w\<lparr>out := out w @ [Log ''Running post-install setup...'']\<rparr>) of
        None \<Rightarrow> None
      | Some (Exit n, w') \<Rightarrow> exit_with n w'
      | Some (r, w') \<Rightarrow> exit_with 0 w')"

text \<open>\<^verbatim>\<open>main\<close> dispatches on the first argument (\<open>[]\<close> is \<^verbatim>\<open>undefined\<close>).\<close>

definition main :: "env \<Rightarrow> string list \<Rightarrow> world \<Rightarrow> (outcome \<times> world) option" where
  "main env args w =
     (case args of
        [] \<Rightarrow> finish showHelp w
      | command # rest \<Rightarrow>
          if command = ''start'' \<or> command = ''launch'' \<or> command = ''open'' then
            (if \<not> isAppInstalled env w then
               exit_with 1 (w\<lparr>out := out w @ [LogErr ''Kaitu app is not installed'',
                                               Log ''Please run: sudo npm install -g kaitu'']\<rparr>)
             else finish (launchApp env) w)
          else if command = ''service'' then runServiceCommand env rest w
          else if command = ''install'' \<or> command = ''setup'' then runInstall env w
          else if command = ''status'' then finish (showStatus env) w
          else if command = ''help'' \<or> command = ''--help'' \<or> command = ''-h'' then finish showHelp w
          else
            (case (seq (console_error (''Unknown command: '' @ command)) showHelp) w of
               None \<Rightarrow> None
             | Some (r, w') \<Rightarrow> exit_with 1 w'))"

section \<open>Notions used in the proofs\<close>


text \<open>
  \<open>keeps R m\<close>: every run of \<open>m\<close> that completes relates the world before to the world
  after by \<open>R\<close>. \<open>frame R\<close>: the relation is reflexive and transitive and does not look
  at the console, so it passes through sequencing, \<^verbatim>\<open>try\<close>/\<^verbatim>\<open>catch\<close> and logging.
\<close>

definition keeps :: "(world \<Rightarrow> world \<Rightarrow> bool) \<Rightarrow> 'a io \<Rightarrow> bool" where
  "keeps R m = (\<forall>w r w'. m w = Some (r, w') \<longrightarrow> R w w')"

definition frame :: "(world \<Rightarrow> world \<Rightarrow> bool) \<Rightarrow> bool" where
  "frame R = ((\<forall>w. R w w) \<and> (\<forall>a b c. R a b \<longrightarrow> R b c \<longrightarrow> R a c) \<and> (\<forall>w ls. R w (w\<lparr>out := ls\<rparr>)))"

text \<open>\<open>total m\<close>: \<open>m\<close> completes in every world.\<close>

definition total :: "'a io \<Rightarrow> bool" where
  "total m = (\<forall>w. m w \<noteq> None)"

text \<open>The relations the proofs use: a path keeps its content; a path keeps its content
  or loses it; no shell command is run; the network is not used.\<close>

definition same_at :: "path \<Rightarrow> world \<Rightarrow> world \<Rightarrow> bool" where
  "same_at p w w' = (files w' p = files w p)"

definition kept_or_gone :: "path \<Rightarrow> world \<Rightarrow> world \<Rightarrow> bool" where
  "kept_or_gone p w w' = (files w' p = files w p \<or> files w' p = None)"

definition same_execs :: "world \<Rightarrow> world \<Rightarrow> bool" where
  "same_execs w w' = (execs w' = execs w)"

definition same_net :: "world \<Rightarrow> world \<Rightarrow> bool" where
  "same_net w w' = (net w' = net w \<and> requests w' = requests w)"

definition same_volumes :: "world \<Rightarrow> world \<Rightarrow> bool" where
  "same_volumes w w' = (volumes w' = volumes w)"

text \<open>The \<^verbatim>\<open>fs\<close> API creates or unlinks no path but \<open>d\<close>.\<close>

definition writes_only :: "path \<Rightarrow> world \<Rightarrow> world \<Rightarrow> bool" where
  "writes_only d w w' = (set (fs_writes w') \<subseteq> insert d (set (fs_writes w)))"

text \<open>The fixed mount point of \<open>installDMG\<close>, and what \<open>getPlatformInfo\<close> returns on
  \<^verbatim>\<open>darwin\<close>.\<close>

definition mountPoint :: "env \<Rightarrow> path" where
  "mountPoint env = path_join env (tmpdir env) ''kaitu-mount''"



text \<open>
  \<open>triple P m Q E\<close>: from a world that satisfies \<open>P\<close>, a run of \<open>m\<close> that returns \<open>x\<close> ends
  in a world that satisfies \<open>Q x\<close>, and a run that throws \<open>e\<close> ends in one that satisfies
  \<open>E e\<close>. \<open>quiet P\<close>: the predicate does not look at the console.
\<close>

definition triple :: "(world \<Rightarrow> bool) \<Rightarrow> 'a io \<Rightarrow> ('a \<Rightarrow> world \<Rightarrow> bool) \<Rightarrow> (error \<Rightarrow> world \<Rightarrow> bool) \<Rightarrow> bool" where
  "triple P m Q E =
     (\<forall>w r w'. P w \<longrightarrow> m w = Some (r, w') \<longrightarrow> (case r of Inl e \<Rightarrow> E e w' | Inr x \<Rightarrow> Q x w'))"

definition quiet :: "(world \<Rightarrow> bool) \<Rightarrow> bool" where
  "quiet P = (\<forall>w ls. P w \<longrightarrow> P (w\<lparr>out := ls\<rparr>))"



section \<open>The specification's normal form of a digest\<close>

text \<open>
  The specification speaks of comparing digests after normalisation to lowercase. This
  function follows the specification's words, not the code: it maps every uppercase
  ASCII letter to its lowercase letter.
\<close>

definition spec_normalize :: "string \<Rightarrow> string" where
  "spec_normalize s =
     map (\<lambda>c. case map_of (zip ''ABCDEFGHIJKLMNOPQRSTUVWXYZ'' ''abcdefghijklmnopqrstuvwxyz'') c of
                 None \<Rightarrow> c | Some l \<Rightarrow> l) s"

section \<open>Sample environments\<close>

text \<open>
  Concrete inputs for the examples below. The sample digest function agrees with SHA-256
  on the empty file and on the file \<^verbatim>\<open>abc\<close>, the only contents the examples hash with a
  matching manifest entry.
\<close>

definition sample_sha256hex :: "bytes \<Rightarrow> string" where
  "sample_sha256hex data =
     (if data = [] then ''e3b0c44298fc1c149afbf4c8996fb92427ae41e4649b934ca495991b7852b855''
      else if data = ''abc'' then ''ba7816bf8f01cfea414140de5dae2223b00361a396177a9cb410ff61f20015ad''
      else ''0000000000000000000000000000000000000000000000000000000000000000'')"

definition sample_package :: packageConfig where
  "sample_package =
     \<lparr>installer = [(''darwin-universal'',
          \<lparr>url = ''https://x/App.dmg'',
           hash = ''sha256:ba7816bf8f01cfea414140de5dae2223b00361a396177a9cb410ff61f20015ad''\<rparr>)],
      service = []\<rparr>"

definition sample_env :: env where
  "sample_env =
     \<lparr>process_platform = ''darwin'', process_arch = ''arm64'', tmpdir = ''/tmp'',
      env_ProgramFiles = None, env_LOCALAPPDATA = None,
      writable = (\<lambda>p. True), cmd_fails = (\<lambda>c. False),
      sha256hex = sample_sha256hex,
      image_entries = (\<lambda>data. if data = ''abc'' then Some [(''Kaitu.app'', ''bundle'')] else None),
      package_json = Some sample_package,
      service_run = (\<lambda>args. Exited 0)\<rparr>"

definition empty_world :: world where
  "empty_world =
     \<lparr>files = Map.empty, volumes = Map.empty, net = [], requests = [], execs = [],
      fs_writes = [], out = []\<rparr>"




text \<open>An image whose volume holds \<^verbatim>\<open>Other.app\<close> and no \<^verbatim>\<open>Kaitu.app\<close>, and a world with
  a cached image and an earlier installation.\<close>

definition env_other_app :: env where
  "env_other_app =
     sample_env\<lparr>image_entries := (\<lambda>data. if data = ''abc'' then Some [(''Other.app'', ''bundle'')] else None)\<rparr>"

definition world_previous_install :: world where
  "world_previous_install =
     empty_world\<lparr>files := [''/tmp/kaitu-installer.dmg'' \<mapsto> ''abc'', ''/Applications/Kaitu.app'' \<mapsto> ''old'']\<rparr>"






section \<open>Proof rules\<close>

declare downloadFile.simps [simp del]

lemmas io_defs = ok_def throw_def andThen_def seq_def tryCatch_def liftE_def
  console_log_def console_error_def console_error_with_def

subsection \<open>Frame rules\<close>



















subsection \<open>Totality rules\<close>

lemma total_ok: "total (ok x)" by (simp add: total_def ok_def)
lemma total_throw: "total (throw e)" by (simp add: total_def throw_def)
lemma total_liftE: "total (liftE e)" by (simp add: total_def liftE_def)
lemma total_console_log: "total (console_log s)" by (simp add: total_def console_log_def)
lemma total_console_error: "total (console_error s)" by (simp add: total_def console_error_def)
lemma total_console_error_with: "total (console_error_with s e)"
  by (simp add: total_def console_error_with_def)

lemma total_andThen: "total m \<Longrightarrow> (\<And>x. total (f x)) \<Longrightarrow> total (andThen m f)"
  by (auto simp: total_def andThen_def split: option.splits sum.splits)

lemma total_seq: "total m \<Longrightarrow> total k \<Longrightarrow> total (seq m k)"
  unfolding seq_def by (rule total_andThen) auto

lemma total_tryCatch: "total m \<Longrightarrow> (\<And>e. total (h e)) \<Longrightarrow> total (tryCatch m h)"
  by (auto simp: total_def tryCatch_def split: option.splits sum.splits)

lemma total_if_world: "total m \<Longrightarrow> total k \<Longrightarrow> total (\<lambda>w. if P w then m w else k w)"
  by (auto simp: total_def)

lemma total_if: "total m \<Longrightarrow> total k \<Longrightarrow> total (if b then m else k)"
  by simp

lemma total_case_option:
  "total m \<Longrightarrow> (\<And>x. total (f x)) \<Longrightarrow> total (case v of None \<Rightarrow> m | Some x \<Rightarrow> f x)"
  by (cases v) auto

lemma total_execSync: "total (execSync env c)"
  by (auto simp: total_def execSync_def Let_def split: option.splits)

lemma total_unlinkSync: "total (unlinkSync p)"
  by (auto simp: total_def unlinkSync_def)

lemma total_readdirSync: "total (readdirSync p)"
  by (auto simp: total_def readdirSync_def split: option.splits)

lemma total_verifyHash: "total (verifyHash env p e)"
  by (auto simp: total_def verifyHash_def Let_def split: option.splits)

lemmas total_rules = total_ok total_throw total_liftE total_console_log total_console_error
  total_console_error_with total_andThen total_seq total_tryCatch total_if_world total_if
  total_case_option total_execSync total_unlinkSync total_readdirSync total_verifyHash

lemma total_installDMG: "total (installDMG env dmgPath)"
  unfolding installDMG_def installDMG_try_def Let_def
  by (intro total_rules)


subsection \<open>The relations are frames\<close>

lemma frame_same_at: "frame (same_at p)" by (simp add: frame_def same_at_def)
lemma frame_kept_or_gone: "frame (kept_or_gone p)" by (auto simp: frame_def kept_or_gone_def)
lemma frame_same_execs: "frame same_execs" by (simp add: frame_def same_execs_def)
lemma frame_same_net: "frame same_net" by (simp add: frame_def same_net_def)
lemma frame_same_volumes: "frame same_volumes" by (simp add: frame_def same_volumes_def)
lemma frame_writes_only: "frame (writes_only d)" by (auto simp: frame_def writes_only_def)

lemmas frames = frame_same_at frame_kept_or_gone frame_same_execs frame_same_net
  frame_same_volumes frame_writes_only

lemma keeps_weaken: "keeps R m \<Longrightarrow> (\<And>w w'. R w w' \<Longrightarrow> S w w') \<Longrightarrow> keeps S m"
  by (auto simp: keeps_def)


subsection \<open>Primitives\<close>







lemma unlinkSync_same_volumes: "keeps same_volumes (unlinkSync p)"
  by (auto simp: keeps_def unlinkSync_def same_volumes_def split: if_splits)


lemma execSync_cases:
  "execSync env c w = Some (r, w') \<Longrightarrow>
     (r = Inl (CommandFailed c) \<and> w' = w\<lparr>execs := execs w @ [c]\<rparr>) \<or>
     (r = Inr () \<and> \<not> cmd_fails env c \<and> run_cmd env c (w\<lparr>execs := execs w @ [c]\<rparr>) = Some w')"
  by (auto simp: execSync_def Let_def split: if_splits option.splits)

lemma run_cmd_frame:
  "run_cmd env c w = Some w' \<Longrightarrow>
     net w' = net w \<and> requests w' = requests w \<and> fs_writes w' = fs_writes w \<and>
     execs w' = execs w \<and> out w' = out w"
  by (cases c) (auto split: option.splits if_splits)


lemma execSync_writes_only: "keeps (writes_only d) (execSync env c)"
  by (auto simp: keeps_def writes_only_def dest!: execSync_cases dest: run_cmd_frame)

lemma execSync_execs:
  "execSync env c w = Some (r, w') \<Longrightarrow> execs w' = execs w @ [c]"
  by (auto dest!: execSync_cases dest: run_cmd_frame)

text \<open>The paths whose content a command can change.\<close>

lemma run_cmd_files_RmRf: "run_cmd env (RmRf p) w = Some w' \<Longrightarrow> files w' = (files w)(p := None)"
  by auto

lemma execSync_same_at_RmRf: "q \<noteq> p \<Longrightarrow> keeps (same_at q) (execSync env (RmRf p))"
  by (auto simp: keeps_def same_at_def dest!: execSync_cases)






lemma execSync_same_at_NetSession: "keeps (same_at q) (execSync env NetSession)"
  by (auto simp: keeps_def same_at_def dest!: execSync_cases)



subsection \<open>downloadFile and the network\<close>





subsection \<open>Path facts\<close>

lemma sep_nonempty: "sep env \<noteq> []"
  by (simp add: sep_def)

lemma path_join_inject: "path_join env a b = path_join env a c \<longleftrightarrow> b = c"
  by (auto simp: path_join_def sep_nonempty)

lemma map_of_path_join:
  "map_of (map (\<lambda>(n, c). (path_join env mp n, c)) es) (path_join env mp n0) = map_of es n0"
  by (induction es) (auto simp: path_join_inject)


lemma suffix_clash: "xs @ ys = zs \<Longrightarrow> drop (length zs - length ys) zs = ys"
  by auto

lemma mount_point_form:
  "\<exists>pre. path_join env t ''kaitu-mount'' = pre @ ''kaitu-mount''"
  by (cases "t = []") (auto simp: path_join_def)

lemma mounted_app_not_destination:
  "path_join env (path_join env t ''kaitu-mount'') ''Kaitu.app'' \<noteq> ''/Applications/Kaitu.app''"
proof
  assume h: "path_join env (path_join env t ''kaitu-mount'') ''Kaitu.app'' = ''/Applications/Kaitu.app''"
  obtain pre where pre: "path_join env t ''kaitu-mount'' = pre @ ''kaitu-mount''"
    using mount_point_form by blast
  have "(pre @ ''kaitu-moun'') @ (''t'' @ sep env @ ''Kaitu.app'') = ''/Applications/Kaitu.app''"
    using h unfolding pre by (simp add: path_join_def)
  from suffix_clash[OF this] show False
    by (cases "process_platform env = ''win32''") (simp_all add: sep_def)
qed


subsection \<open>Running the installer\<close>









lemma total_verifyAndInstall: "total (verifyAndInstall env hp info)"
  unfolding verifyAndInstall_def Let_def
  by (intro total_rules total_installDMG)








subsection \<open>Triples\<close>







lemma triple_liftE:
  "(\<And>w x. P w \<Longrightarrow> r = Inr x \<Longrightarrow> Q x w) \<Longrightarrow> (\<And>w e. P w \<Longrightarrow> r = Inl e \<Longrightarrow> E e w) \<Longrightarrow>
   triple P (liftE r) Q E"
  by (auto simp: triple_def liftE_def split: sum.splits)




lemma triple_if_world:
  "triple (\<lambda>w. P w \<and> C w) m Q E \<Longrightarrow> triple (\<lambda>w. P w \<and> \<not> C w) k Q E \<Longrightarrow>
   triple P (\<lambda>w. if C w then m w else k w) Q E"
  by (auto simp: triple_def split: sum.splits)



lemma triple_console_error: "quiet P \<Longrightarrow> triple P (console_error s) (\<lambda>x. P) E"
  by (auto simp: triple_def console_error_def quiet_def)

lemma triple_console_error_with: "quiet P \<Longrightarrow> triple P (console_error_with s e) (\<lambda>x. P) E"
  by (auto simp: triple_def console_error_with_def quiet_def)

text \<open>A step that keeps a relation carries a predicate that the relation preserves.\<close>

lemma triple_keeps:
  "keeps R m \<Longrightarrow> (\<And>w w'. P w \<Longrightarrow> R w w' \<Longrightarrow> P' w') \<Longrightarrow> triple P m (\<lambda>x. P') (\<lambda>e. P')"
  by (auto simp: triple_def keeps_def split: sum.splits)



lemma triple_True: "triple P m (\<lambda>x w. True) (\<lambda>e w. True)"
  by (auto simp: triple_def split: sum.splits)

lemma triple_pre_True: "triple (\<lambda>w. True) m Q E \<Longrightarrow> triple P m Q E"
  by (auto simp: triple_def)

subsection \<open>installDMG and installService delete the staged file when they return\<close>





subsection \<open>More path facts\<close>




subsection \<open>What the stages leave alone\<close>









subsection \<open>Runs without privileges\<close>










subsection \<open>A digest mismatch, forwards\<close>



subsection \<open>The staged files after a successful installation\<close>









subsection \<open>A digest mismatch, from the world a run ends in\<close>












section \<open>Platform identification\<close>

text \<open>
  Claim C6. \<open>identify\<close> is a function of the raw platform and architecture alone.
  \<^verbatim>\<open>darwin\<close> gives the key \<^verbatim>\<open>darwin-universal\<close> for every architecture. Windows (whose raw
  platform name is \<^verbatim>\<open>win32\<close>) maps \<^verbatim>\<open>x64\<close>, \<^verbatim>\<open>arm64\<close> and \<^verbatim>\<open>ia32\<close> to \<^verbatim>\<open>amd64\<close>,
  \<^verbatim>\<open>arm64\<close> and \<^verbatim>\<open>386\<close>; \<^verbatim>\<open>linux\<close> maps \<^verbatim>\<open>x64\<close>, \<^verbatim>\<open>arm64\<close> and \<^verbatim>\<open>arm\<close> to \<^verbatim>\<open>amd64\<close>,
  \<^verbatim>\<open>arm64\<close> and \<^verbatim>\<open>arm\<close>; every other architecture goes into the key unchanged. Any other
  raw platform fails with \<open>UnsupportedPlatform\<close>.
\<close>

theorem identify_mapping:
  "identify ''darwin'' a =
     Inr \<lparr>platform = ''darwin'', arch = ''universal'', key = ''darwin-universal'',
          isMac = True, isWindows = False, isLinux = False\<rparr>
   \<and> map_sum id key (identify ''win32'' ''x64'') = Inr ''windows-amd64''
   \<and> map_sum id key (identify ''win32'' ''arm64'') = Inr ''windows-arm64''
   \<and> map_sum id key (identify ''win32'' ''ia32'') = Inr ''windows-386''
   \<and> (a \<notin> {''x64'', ''arm64'', ''ia32''} \<longrightarrow>
        identify ''win32'' a =
          Inr \<lparr>platform = ''windows'', arch = a, key = ''windows-'' @ a,
               isMac = False, isWindows = True, isLinux = False\<rparr>)
   \<and> map_sum id key (identify ''linux'' ''x64'') = Inr ''linux-amd64''
   \<and> map_sum id key (identify ''linux'' ''arm64'') = Inr ''linux-arm64''
   \<and> map_sum id key (identify ''linux'' ''arm'') = Inr ''linux-arm''
   \<and> (a \<notin> {''x64'', ''arm64'', ''arm''} \<longrightarrow>
        identify ''linux'' a =
          Inr \<lparr>platform = ''linux'', arch = a, key = ''linux-'' @ a,
               isMac = False, isWindows = False, isLinux = True\<rparr>)
   \<and> (os \<notin> {''darwin'', ''win32'', ''linux''} \<longrightarrow> identify os a = Inl (UnsupportedPlatform os))
   \<and> getPlatformInfo env = identify (process_platform env) (process_arch env)"
  by (simp add: identify_def lookup_or_def archMap_windows_def archMap_linux_def getPlatformInfo_def)

theorem identify_mapping_witness:
  "map_sum id key (identify ''darwin'' ''riscv64'') = Inr ''darwin-universal''
   \<and> map_sum id key (identify ''win32'' ''riscv64'') = Inr ''windows-riscv64''
   \<and> map_sum id key (identify ''linux'' ''riscv64'') = Inr ''linux-riscv64''
   \<and> identify ''freebsd'' ''riscv64'' = Inl (UnsupportedPlatform ''freebsd'')
   \<and> map_sum id key (getPlatformInfo sample_env) = Inr ''darwin-universal''"
  using identify_mapping [where a = "''riscv64''" and os = "''freebsd''" and env = sample_env]
  by (simp add: sample_env_def identify_def)

section \<open>Integrity verification\<close>

text \<open>
  Claim C3, as the code has it. For a readable file, \<open>verifyHash\<close> succeeds exactly when
  the expected string is, character for character, \<^verbatim>\<open>sha256:\<close> followed by the
  hexadecimal digest that the hash library prints. The expected string is not
  normalised: every other expected string, whatever its letter case, is rejected with a
  hash mismatch that carries both strings.
\<close>

theorem verifyHash_exact:
  "files w p = Some data \<Longrightarrow>
     (verifyHash env p e w = Some (Inr True, w) \<longleftrightarrow> e = ''sha256:'' @ sha256hex env data) \<and>
     (e \<noteq> ''sha256:'' @ sha256hex env data \<longrightarrow>
        verifyHash env p e w = Some (Inl (HashMismatch e (''sha256:'' @ sha256hex env data)), w))"
  by (auto simp: verifyHash_def Let_def)

theorem verifyHash_exact_witness:
  "verifyHash sample_env ''/tmp/f'' ''sha256:e3b0c44298fc1c149afbf4c8996fb92427ae41e4649b934ca495991b7852b855''
     (empty_world\<lparr>files := [''/tmp/f'' \<mapsto> []]\<rparr>)
   = Some (Inr True, empty_world\<lparr>files := [''/tmp/f'' \<mapsto> []]\<rparr>)"
  using verifyHash_exact [where w = "empty_world\<lparr>files := [''/tmp/f'' \<mapsto> []]\<rparr>" and p = "''/tmp/f''"
      and data = "[]" and env = sample_env
      and e = "''sha256:e3b0c44298fc1c149afbf4c8996fb92427ae41e4649b934ca495991b7852b855''"]
  by (simp add: sample_env_def sample_sha256hex_def empty_world_def)

text \<open>
  The empty file, whose SHA-256 digest is \<^verbatim>\<open>e3b0c442...\<close>, and the same digest written in
  uppercase after the \<^verbatim>\<open>sha256:\<close> tag: the expected string normalises to the file's
  digest, and \<open>verifyHash\<close> rejects it.
\<close>

theorem verifyHash_uppercase_counterexample:
  "spec_normalize ''sha256:E3B0C44298FC1C149AFBF4C8996FB92427AE41E4649B934CA495991B7852B855''
     = ''sha256:'' @ sha256hex sample_env []
   \<and> verifyHash sample_env ''/tmp/f''
        ''sha256:E3B0C44298FC1C149AFBF4C8996FB92427AE41E4649B934CA495991B7852B855''
        (empty_world\<lparr>files := [''/tmp/f'' \<mapsto> []]\<rparr>)
     = Some (Inl (HashMismatch
          ''sha256:E3B0C44298FC1C149AFBF4C8996FB92427AE41E4649B934CA495991B7852B855''
          ''sha256:e3b0c44298fc1c149afbf4c8996fb92427ae41e4649b934ca495991b7852b855''),
        empty_world\<lparr>files := [''/tmp/f'' \<mapsto> []]\<rparr>)"
  by (simp add: spec_normalize_def verifyHash_def sample_env_def sample_sha256hex_def empty_world_def)

section \<open>The command line front end\<close>

text \<open>
  Claim C9. On \<^verbatim>\<open>linux\<close>, \<open>isAppInstalled\<close> is false whatever the file system holds, so
  \<^verbatim>\<open>start\<close>, \<^verbatim>\<open>launch\<close> and \<^verbatim>\<open>open\<close> report that the app is not installed and exit with
  code 1.
\<close>

theorem linux_app_never_installed:
  "process_platform env = ''linux'' \<Longrightarrow>
     isAppInstalled env w = False \<and>
     (command \<in> {''start'', ''launch'', ''open''} \<longrightarrow>
        main env (command # rest) w =
          Some (Exit 1, w\<lparr>out := out w @ [LogErr ''Kaitu app is not installed'',
                                          Log ''Please run: sudo npm install -g kaitu'']\<rparr>))"
  by (auto simp: isAppInstalled_def main_def exit_with_def)

theorem linux_app_never_installed_witness:
  "isAppInstalled (sample_env\<lparr>process_platform := ''linux''\<rparr>)
      (empty_world\<lparr>files := [''/Applications/Kaitu.app'' \<mapsto> ''bundle'', ''/opt/Kaitu'' \<mapsto> ''app'']\<rparr>) = False
   \<and> main (sample_env\<lparr>process_platform := ''linux''\<rparr>) [''start'']
        (empty_world\<lparr>files := [''/Applications/Kaitu.app'' \<mapsto> ''bundle'', ''/opt/Kaitu'' \<mapsto> ''app'']\<rparr>)
      = Some (Exit 1, empty_world\<lparr>files := [''/Applications/Kaitu.app'' \<mapsto> ''bundle'', ''/opt/Kaitu'' \<mapsto> ''app''],
                                   out := [LogErr ''Kaitu app is not installed'',
                                           Log ''Please run: sudo npm install -g kaitu'']\<rparr>)"
  using linux_app_never_installed [where env = "sample_env\<lparr>process_platform := ''linux''\<rparr>"
      and command = "''start''" and rest = "[]"
      and w = "empty_world\<lparr>files := [''/Applications/Kaitu.app'' \<mapsto> ''bundle'', ''/opt/Kaitu'' \<mapsto> ''app'']\<rparr>"]
  by (simp add: sample_env_def empty_world_def)

section \<open>Secure fetch\<close>



section \<open>The app installer\<close>




text \<open>
  Claim C5, as the code has it. When the mounted volume has no \<^verbatim>\<open>Kaitu.app\<close> but has a
  top-level entry ending in \<^verbatim>\<open>.app\<close>, the scan finds that entry and \<open>BundleNotFound\<close> is
  not raised, but the entry's name is never used: the copy is still attempted from
  \<^verbatim>\<open>Kaitu.app\<close> under the mount point, which does not exist, so \<open>installDMG\<close> throws the
  failure of that copy. No copy from the entry found is run, and nothing is at
  \<^verbatim>\<open>/Applications/Kaitu.app\<close> afterwards: an earlier installation has been removed by
  then.
\<close>

theorem scanned_bundle_is_not_installed:
  assumes dmg: "files w dmgPath = Some imgdata"
    and img: "image_entries env imgdata = Some es"
    and free: "volumes w (mountPoint env) = None"
    and noapp: "map_of es ''Kaitu.app'' = None"
      "files w (path_join env (mountPoint env) ''Kaitu.app'') = None"
    and other: "find (\<lambda>f. endsWith f ''.app'') (map fst es) = Some appFile"
    and attach: "\<not> cmd_fails env (HdiutilAttach dmgPath (mountPoint env))"
    and rm: "\<not> cmd_fails env (RmRf ''/Applications/Kaitu.app'')"
  shows "\<exists>w'. installDMG env dmgPath w =
             Some (Inl (CommandFailed (CpR (path_join env (mountPoint env) ''Kaitu.app'')
                                           ''/Applications/Kaitu.app'')), w')
           \<and> files w' ''/Applications/Kaitu.app'' = None
           \<and> CpR (path_join env (mountPoint env) appFile) ''/Applications/Kaitu.app'' \<notin> set (execs w') - set (execs w)"
proof -
  have "appFile \<in> set (map fst es)"
    using other by (auto simp: find_Some_iff)
  moreover have "''Kaitu.app'' \<notin> set (map fst es)"
    using noapp(1) by (simp add: map_of_eq_None_iff)
  ultimately have ne: "appFile \<noteq> ''Kaitu.app''" by blast
  show ?thesis
    using assms ne mounted_app_not_destination[of env "tmpdir env"]
    unfolding installDMG_def installDMG_try_def mountPoint_def Let_def
    apply (simp add: io_defs execSync_def Let_def existsSync_def readdirSync_def map_add_def map_of_path_join)
    apply (auto simp: path_join_inject split: option.splits)
    done
qed

theorem scanned_bundle_is_not_installed_witness:
  "find (\<lambda>f. endsWith f ''.app'') (map fst [(''Other.app'', ''bundle'')]) = Some ''Other.app''
   \<and> (\<exists>w'. installDMG env_other_app ''/tmp/kaitu-installer.dmg'' world_previous_install
             = Some (Inl (CommandFailed (CpR ''/tmp/kaitu-mount/Kaitu.app'' ''/Applications/Kaitu.app'')), w')
           \<and> files w' ''/Applications/Kaitu.app'' = None)"
proof -
  have m: "mountPoint env_other_app = ''/tmp/kaitu-mount''"
    by (simp add: mountPoint_def env_other_app_def sample_env_def path_join_def sep_def)
  have j: "path_join env_other_app ''/tmp/kaitu-mount'' ''Kaitu.app'' = ''/tmp/kaitu-mount/Kaitu.app''"
    by (simp add: env_other_app_def sample_env_def path_join_def sep_def)
  have a: "files world_previous_install ''/tmp/kaitu-installer.dmg'' = Some ''abc''"
    by (simp add: world_previous_install_def empty_world_def)
  have b: "image_entries env_other_app ''abc'' = Some [(''Other.app'', ''bundle'')]"
    by (simp add: env_other_app_def sample_env_def)
  have c: "volumes world_previous_install (mountPoint env_other_app) = None"
    by (simp add: world_previous_install_def empty_world_def)
  have d: "map_of [(''Other.app'', ''bundle'')] ''Kaitu.app'' = None" by simp
  have e: "files world_previous_install (path_join env_other_app (mountPoint env_other_app) ''Kaitu.app'') = None"
    unfolding m j by (simp add: world_previous_install_def empty_world_def)
  have f: "find (\<lambda>f. endsWith f ''.app'') (map fst [(''Other.app'', ''bundle'')]) = Some ''Other.app''"
    by (simp add: endsWith_def)
  have g: "\<not> cmd_fails env_other_app (HdiutilAttach ''/tmp/kaitu-installer.dmg'' (mountPoint env_other_app))"
    by (simp add: env_other_app_def sample_env_def)
  have h: "\<not> cmd_fails env_other_app (RmRf ''/Applications/Kaitu.app'')"
    by (simp add: env_other_app_def sample_env_def)
  from scanned_bundle_is_not_installed[OF a b c d e f g h] f
  show ?thesis unfolding m j by blast
qed

section \<open>The cached installer image\<close>



section \<open>Runs without privileges\<close>



section \<open>Unverified content is never installed\<close>



section \<open>Staged downloads\<close>




end
